theory Spec2Isabelle
  imports Complex_Main
begin

section \<open>Numbers\<close>

text \<open>
  The type \<^verbatim>\<open>number\<close>: the IEEE 754 doubles. \<open>Finite x\<close> is the finite double whose
  value is the real \<open>x\<close>; the two zeros, which are equal for \<^verbatim>\<open>==\<close> and \<^verbatim>\<open>===\<close> and are
  both written \<^verbatim>\<open>0\<close> by \<^verbatim>\<open>JSON.stringify\<close>, are the one value \<open>Finite 0\<close>.
\<close>

datatype number = Finite real | NaN | PosInfinity | NegInfinity

fun is_finite :: "number \<Rightarrow> bool" where
  "is_finite (Finite x) = True"
| "is_finite n = False"

text \<open>
  Rounding to the nearest double, ties to the even significand. The spacing of the
  doubles around \<open>x\<close> is \<open>ulp x\<close>: \<open>2 ^ e\<close> for the least exponent \<open>e\<close> from \<open>-1074\<close> with
  \<open>\<bar>x\<bar> < 2 ^ (e + 53)\<close>, and \<open>2 ^ 971\<close> at most. A real at or beyond the middle between
  the largest double \<open>(2 ^ 53 - 1) * 2 ^ 971\<close> and \<open>2 ^ 1024\<close> rounds to an infinity.
\<close>

definition round_half_even :: "real \<Rightarrow> int" where
  "round_half_even q =
     (let f = \<lfloor>q\<rfloor>; d = q - of_int f
      in if d < 1 / 2 then f
         else if 1 / 2 < d then f + 1
         else if even f then f else f + 1)"

fun ulp_search :: "nat \<Rightarrow> real \<Rightarrow> real \<Rightarrow> real" where
  "ulp_search 0 u x = u"
| "ulp_search (Suc n) u x = (if \<bar>x\<bar> < u * 2 ^ 53 then u else ulp_search n (2 * u) x)"

definition ulp :: "real \<Rightarrow> real" where
  "ulp x = ulp_search 2045 (1 / 2 ^ 1074) x"

definition overflow_threshold :: real where
  "overflow_threshold = (2 ^ 54 - 1) * 2 ^ 970"

definition round_double :: "real \<Rightarrow> number" where
  "round_double x =
     (if overflow_threshold \<le> x then PosInfinity
      else if x \<le> - overflow_threshold then NegInfinity
      else Finite (of_int (round_half_even (x / ulp x)) * ulp x))"

text \<open>
  The operators \<^verbatim>\<open>+\<close>, \<^verbatim>\<open>-\<close> and \<^verbatim>\<open><\<close> on numbers. An earlier equation wins over a
  later one.
\<close>

fun js_add :: "number \<Rightarrow> number \<Rightarrow> number" where
  "js_add NaN b = NaN"
| "js_add a NaN = NaN"
| "js_add PosInfinity NegInfinity = NaN"
| "js_add NegInfinity PosInfinity = NaN"
| "js_add PosInfinity b = PosInfinity"
| "js_add a PosInfinity = PosInfinity"
| "js_add NegInfinity b = NegInfinity"
| "js_add a NegInfinity = NegInfinity"
| "js_add (Finite a) (Finite b) = round_double (a + b)"

fun js_sub :: "number \<Rightarrow> number \<Rightarrow> number" where
  "js_sub NaN b = NaN"
| "js_sub a NaN = NaN"
| "js_sub PosInfinity PosInfinity = NaN"
| "js_sub NegInfinity NegInfinity = NaN"
| "js_sub PosInfinity b = PosInfinity"
| "js_sub a PosInfinity = NegInfinity"
| "js_sub NegInfinity b = NegInfinity"
| "js_sub a NegInfinity = PosInfinity"
| "js_sub (Finite a) (Finite b) = round_double (a - b)"

fun js_less :: "number \<Rightarrow> number \<Rightarrow> bool" where
  "js_less NaN b = False"
| "js_less a NaN = False"
| "js_less (Finite a) (Finite b) = (a < b)"
| "js_less a NegInfinity = False"
| "js_less NegInfinity b = True"
| "js_less PosInfinity b = False"
| "js_less a PosInfinity = True"

text \<open>\<^verbatim>\<open>a == b\<close> on numbers: \<^verbatim>\<open>NaN\<close> is equal to nothing, itself included.\<close>

definition js_equal :: "number \<Rightarrow> number \<Rightarrow> bool" where
  "js_equal a b = (a = b \<and> a \<noteq> NaN)"

section \<open>The account aggregate: state, events, fold\<close>

text \<open>\<^verbatim>\<open>type AccountStatus = "NonExistent" | "Open" | "Closed"\<close>\<close>

datatype AccountStatus = NonExistent | Open | Closed

text \<open>\<^verbatim>\<open>type State = { status: AccountStatus; name: string; amount: number }\<close>\<close>

record State =
  status :: AccountStatus
  name :: string
  amount :: number

text \<open>
  \<^verbatim>\<open>Events.Event\<close>, a union tagged by \<^verbatim>\<open>type\<close>. The payload \<^verbatim>\<open>data\<close> of \<^verbatim>\<open>Opened\<close> is
  \<^verbatim>\<open>{ status, name, amount }\<close> in this order; the payload of \<^verbatim>\<open>Deposited\<close> and of
  \<^verbatim>\<open>Withdrawn\<close> is \<^verbatim>\<open>{ amount }\<close>.
\<close>

datatype Event =
  Opened AccountStatus string number
| Deposited number
| Withdrawn number

text \<open>\<^verbatim>\<open>Fold.initial = { status: 'NonExistent', name: "", amount: 0 }\<close>\<close>

definition Fold_initial :: State where
  "Fold_initial = \<lparr>status = NonExistent, name = '''', amount = Finite 0\<rparr>"

text \<open>
  \<^verbatim>\<open>Fold.evolve\<close>: a switch over the tag; every branch copies the state
  (\<^verbatim>\<open>...state\<close>) and overwrites the fields it names.
\<close>

fun Fold_evolve :: "State \<Rightarrow> Event \<Rightarrow> State" where
  "Fold_evolve state (Opened st nm am) = state\<lparr>status := Open, name := nm\<rparr>"
| "Fold_evolve state (Deposited am) = state\<lparr>amount := js_add (amount state) am\<rparr>"
| "Fold_evolve state (Withdrawn am) = state\<lparr>amount := js_sub (amount state) am\<rparr>"

text \<open>\<^verbatim>\<open>Fold.fold = (state, events) => events.reduce(evolve, state)\<close>\<close>

definition Fold_fold :: "State \<Rightarrow> Event list \<Rightarrow> State" where
  "Fold_fold state events = foldl Fold_evolve state events"

text \<open>The amount that the payload of an event carries.\<close>

fun event_amount :: "Event \<Rightarrow> number" where
  "event_amount (Opened st nm am) = am"
| "event_amount (Deposited am) = am"
| "event_amount (Withdrawn am) = am"

section \<open>Decision functions\<close>

text \<open>
  What a decision function, the codec, the storage or the Decider throws.
  \<^verbatim>\<open>Error msg\<close> is \<^verbatim>\<open>new Error(msg)\<close>; \<open>SyntaxError\<close> and \<open>TypeError\<close> are the built-in
  errors of \<^verbatim>\<open>JSON.parse\<close> and of a property read on \<^verbatim>\<open>null\<close>; \<open>Conflict\<close> is the
  storage's version mismatch and \<open>MaxResyncsExhausted\<close> the Decider's
  "Concurrency violation; aborting after 3 attempts".
\<close>

datatype error = Error string | SyntaxError | TypeError | Conflict | MaxResyncsExhausted

type_synonym AccountId = string

definition Decide_open :: "AccountId \<Rightarrow> string \<Rightarrow> State \<Rightarrow> error + Event list" where
  "Decide_open accountId nm state = Inr [Opened Open nm (Finite 0)]"

definition Decide_deposit :: "number \<Rightarrow> State \<Rightarrow> error + Event list" where
  "Decide_deposit am state =
     (if status state \<noteq> Open then Inl (Error ''Account is not open'')
      else Inr [Deposited am])"

definition Decide_withdraw :: "number \<Rightarrow> State \<Rightarrow> error + Event list" where
  "Decide_withdraw am state =
     (if status state \<noteq> Open then Inl (Error ''Account is not open'')
      else if js_less (amount state) am then Inl (Error ''Insufficient funds'')
      else Inr [Withdrawn am])"

section \<open>The codec\<close>

subsection \<open>JavaScript values, JSON values and wire strings\<close>

text \<open>
  What \<^verbatim>\<open>JSON.parse\<close> returns: null, a boolean, a number (a finite double, or an
  infinity for a literal beyond the largest double, never \<^verbatim>\<open>NaN\<close>), a string, an array
  or an object, the object as the list of the members of its text.
\<close>

datatype json =
  JNull
| JBool bool
| JNumber number
| JString string
| JArray "json list"
| JObject "(string \<times> json) list"

text \<open>
  The values a property of an event object can hold at run time: the JSON values and
  \<^verbatim>\<open>undefined\<close>. The codec builds its result from the properties of an untyped
  (\<^verbatim>\<open>any\<close>) parse result, so the fields of a decoded event are of this type.
\<close>

datatype jsval =
  VUndefined
| VNull
| VBool bool
| VNumber number
| VString string
| VArray "jsval list"
| VObject "(string \<times> jsval) list"

fun of_json :: "json \<Rightarrow> jsval" where
  "of_json JNull = VNull"
| "of_json (JBool b) = VBool b"
| "of_json (JNumber n) = VNumber n"
| "of_json (JString s) = VString s"
| "of_json (JArray xs) = VArray (map of_json xs)"
| "of_json (JObject kvs) = VObject (map (\<lambda>kv. (fst kv, of_json (snd kv))) kvs)"

text \<open>
  The JSON value that \<^verbatim>\<open>JSON.stringify\<close> writes for a value: none for \<^verbatim>\<open>undefined\<close>;
  \<^verbatim>\<open>null\<close> for a number that is not finite (\<^verbatim>\<open>NaN\<close> and the infinities); a property whose
  value is \<^verbatim>\<open>undefined\<close> is left out of an object, and an array element that is
  \<^verbatim>\<open>undefined\<close> is written as null.
\<close>

fun to_json :: "jsval \<Rightarrow> json option" where
  "to_json VUndefined = None"
| "to_json VNull = Some JNull"
| "to_json (VBool b) = Some (JBool b)"
| "to_json (VNumber n) = Some (if is_finite n then JNumber n else JNull)"
| "to_json (VString s) = Some (JString s)"
| "to_json (VArray xs) =
     Some (JArray (map (\<lambda>x. case to_json x of None \<Rightarrow> JNull | Some j \<Rightarrow> j) xs))"
| "to_json (VObject kvs) =
     Some (JObject (concat (map (\<lambda>kv. case to_json (snd kv) of
                                         None \<Rightarrow> []
                                       | Some j \<Rightarrow> [(fst kv, j)]) kvs)))"

text \<open>
  A string of the wire format, kept up to what \<^verbatim>\<open>JSON.parse\<close> makes of it: the empty
  string (the only string that is falsy), a JSON text, represented by the value it
  denotes, or any other non-empty string, which is not JSON. The characters of a JSON
  text are not modelled: \<^verbatim>\<open>JSON.parse\<close> returns the value that \<^verbatim>\<open>JSON.stringify\<close> wrote.
\<close>

datatype wire_string = Empty_string | Json_text json | Malformed_text

text \<open>\<^verbatim>\<open>JSON.parse\<close> throws a SyntaxError on a string that is not a JSON text.\<close>

fun JSON_parse :: "wire_string \<Rightarrow> error + json" where
  "JSON_parse (Json_text j) = Inr j"
| "JSON_parse Empty_string = Inl SyntaxError"
| "JSON_parse Malformed_text = Inl SyntaxError"

text \<open>\<^verbatim>\<open>JSON.stringify\<close> returns a string, or \<^verbatim>\<open>undefined\<close> (\<open>None\<close>) for \<^verbatim>\<open>undefined\<close>.\<close>

definition JSON_stringify :: "jsval \<Rightarrow> wire_string option" where
  "JSON_stringify v = map_option Json_text (to_json v)"

subsection \<open>Event objects\<close>

text \<open>
  An object with the properties \<^verbatim>\<open>type\<close> and \<^verbatim>\<open>data\<close>. The type parameter is what the
  \<^verbatim>\<open>data\<close> property can be.
\<close>

record 'd event_object =
  type :: string
  data :: 'd

text \<open>
  The \<^verbatim>\<open>data\<close> property of a wire record \<^verbatim>\<open>{ type: string; data?: string }\<close>: the
  property is not there, it is there with the value \<^verbatim>\<open>undefined\<close>, or it holds a string.
\<close>

datatype data_field = Omitted | Undefined | Str wire_string

type_synonym wire_event = "data_field event_object"

text \<open>
  A domain event as the codec sees it at run time. \<open>data = None\<close> is an object with no
  \<^verbatim>\<open>data\<close> property (\<^verbatim>\<open>"data" in event\<close> is false).
\<close>

type_synonym js_event = "jsval option event_object"

fun status_string :: "AccountStatus \<Rightarrow> string" where
  "status_string NonExistent = ''NonExistent''"
| "status_string Open = ''Open''"
| "status_string Closed = ''Closed''"

text \<open>The run-time object of a typed event.\<close>

fun js_of_event :: "Event \<Rightarrow> js_event" where
  "js_of_event (Opened st nm am) =
     \<lparr>type = ''Opened'',
      data = Some (VObject [(''status'', VString (status_string st)),
                            (''name'', VString nm),
                            (''amount'', VNumber am)])\<rparr>"
| "js_of_event (Deposited am) =
     \<lparr>type = ''Deposited'', data = Some (VObject [(''amount'', VNumber am)])\<rparr>"
| "js_of_event (Withdrawn am) =
     \<lparr>type = ''Withdrawn'', data = Some (VObject [(''amount'', VNumber am)])\<rparr>"

subsection \<open>decode and encode\<close>

text \<open>
  \<^verbatim>\<open>event.data || "{}"\<close>: the string \<^verbatim>\<open>"{}"\<close> takes the place of a falsy \<^verbatim>\<open>data\<close>, which
  is a property that is not there, \<^verbatim>\<open>undefined\<close>, or the empty string.
\<close>

definition data_or_braces :: "data_field \<Rightarrow> wire_string" where
  "data_or_braces d =
     (case d of
        Str s \<Rightarrow> (if s = Empty_string then Json_text (JObject []) else s)
      | Undefined \<Rightarrow> Json_text (JObject [])
      | Omitted \<Rightarrow> Json_text (JObject []))"

text \<open>
  \<^verbatim>\<open>data.k\<close> on a parse result that is not null, for the property names the codec reads
  (\<^verbatim>\<open>status\<close>, \<^verbatim>\<open>name\<close>, \<^verbatim>\<open>amount\<close>): the property of an object, \<^verbatim>\<open>undefined\<close> when
  the object has none of that name or when the value is a boolean, a number, a
  string or an array. Of members with the same name in a JSON text, \<^verbatim>\<open>JSON.parse\<close>
  keeps the last.
\<close>

fun property :: "json \<Rightarrow> string \<Rightarrow> jsval" where
  "property (JObject kvs) k =
     (case map_of (rev kvs) k of None \<Rightarrow> VUndefined | Some j \<Rightarrow> of_json j)"
| "property j k = VUndefined"

text \<open>
  \<^verbatim>\<open>Events.codec.decode\<close>. The payload is parsed first, for every tag; then the switch
  over the tag builds the event, and falls through (returning \<^verbatim>\<open>undefined\<close>, \<open>Inr None\<close>)
  for any other tag. Reading a property of \<^verbatim>\<open>null\<close> throws a TypeError.
\<close>

definition codec_decode :: "wire_event \<Rightarrow> error + js_event option" where
  "codec_decode event =
     (case JSON_parse (data_or_braces (data event)) of
        Inl e \<Rightarrow> Inl e
      | Inr d \<Rightarrow>
          if type event = ''Opened'' then
            (if d = JNull then Inl TypeError
             else Inr (Some \<lparr>type = type event,
                              data = Some (VObject [(''status'', property d ''status''),
                                                    (''name'', property d ''name''),
                                                    (''amount'', property d ''amount'')])\<rparr>))
          else if type event = ''Deposited'' then
            (if d = JNull then Inl TypeError
             else Inr (Some \<lparr>type = type event,
                              data = Some (VObject [(''amount'', property d ''amount'')])\<rparr>))
          else if type event = ''Withdrawn'' then
            (if d = JNull then Inl TypeError
             else Inr (Some \<lparr>type = type event,
                              data = Some (VObject [(''amount'', property d ''amount'')])\<rparr>))
          else Inr None)"

text \<open>
  \<^verbatim>\<open>Events.codec.encode\<close>:
  \<^verbatim>\<open>const data = "data" in event ? JSON.stringify(event.data) : undefined\<close>, and the
  result \<^verbatim>\<open>{ type: event.type, data }\<close> always has the property \<^verbatim>\<open>data\<close>.
\<close>

definition codec_encode :: "js_event \<Rightarrow> wire_event" where
  "codec_encode event =
     (let d = (case data event of Some v \<Rightarrow> JSON_stringify v | None \<Rightarrow> None)
      in \<lparr>type = type event,
          data = (case d of Some s \<Rightarrow> Str s | None \<Rightarrow> Undefined)\<rparr>)"

section \<open>Storage and the Decider\<close>

text \<open>
  Modelled from the spec: the storage (section 6), which belongs with the Decider to
  the Equinox library that the source imports. Both are modelled for one caller at a
  time: the storage keeps, for every stream id, the events committed so far, and two
  logs record what was done to it.
\<close>

record 'e world =
  streams :: "string \<Rightarrow> 'e list"
  transactions :: "(string \<times> 'e list) list"
  appends :: "(string \<times> nat \<times> 'e list) list"

text \<open>
  Modelled from the spec: the storage collaborator's \<^verbatim>\<open>read\<close> and \<^verbatim>\<open>append\<close> (section 6).
  The version of a stream is the count of its events; an append is refused with a
  conflict unless the expected version is the stream's version, and otherwise commits
  the whole batch. \<open>appends\<close> logs every accepted append round-trip: stream id,
  expected version, events.
\<close>

definition storage_read :: "'e world \<Rightarrow> string \<Rightarrow> 'e list \<times> nat" where
  "storage_read w sid = (streams w sid, length (streams w sid))"

definition storage_append :: "'e world \<Rightarrow> string \<Rightarrow> nat \<Rightarrow> 'e list \<Rightarrow> error + 'e world" where
  "storage_append w sid expectedVersion events =
     (if length (streams w sid) \<noteq> expectedVersion then Inl Conflict
      else Inr (w\<lparr>streams := (streams w)(sid := streams w sid @ events),
                  appends := appends w @ [(sid, expectedVersion, events)]\<rparr>))"

text \<open>
  What \<^verbatim>\<open>DynamoStoreCategory.create(context, category, codec, fold, initial, ...)\<close> binds
  for the Decider: the fold and the initial state.
\<close>

record ('e, 's) Category =
  category_fold :: "'s \<Rightarrow> 'e list \<Rightarrow> 's"
  category_initial :: 's

definition account_category :: "(Event, State) Category" where
  "account_category = \<lparr>category_fold = Fold_fold, category_initial = Fold_initial\<rparr>"

text \<open>
  Modelled from the spec: the Decider's Loading step (section 4.4), which reads all
  events of the stream and folds them from the initial state to the current state
  and version.
\<close>

definition Decider_load :: "('e, 's) Category \<Rightarrow> 'e world \<Rightarrow> string \<Rightarrow> 's \<times> nat" where
  "Decider_load cat w sid =
     (case storage_read w sid of
        (events, version) \<Rightarrow> (category_fold cat (category_initial cat) events, version))"

text \<open>
  Modelled from the spec: Loading, Deciding and Appending (section 4.4), with the
  number of attempts left as the first argument. A validation failure of the decision
  function propagates at once; no events decided is a no-op without an append; a
  conflict loads again and runs the same decision function again.
\<close>

fun Decider_attempts ::
  "nat \<Rightarrow> ('e, 's) Category \<Rightarrow> string \<Rightarrow> ('s \<Rightarrow> error + 'e list) \<Rightarrow> 'e world
   \<Rightarrow> error + ('e list \<times> 'e world)" where
  "Decider_attempts 0 cat sid decide w = Inl MaxResyncsExhausted"
| "Decider_attempts (Suc n) cat sid decide w =
     (case Decider_load cat w sid of
        (state, version) \<Rightarrow>
          (case decide state of
             Inl e \<Rightarrow> Inl e
           | Inr events \<Rightarrow>
               if events = [] then Inr (events, w)
               else (case storage_append w sid version events of
                       Inr w' \<Rightarrow> Inr (events, w')
                     | Inl e \<Rightarrow>
                         if e = Conflict then Decider_attempts n cat sid decide w
                         else Inl e)))"

text \<open>
  Modelled from the spec: \<^verbatim>\<open>decider.transact(decide)\<close>, one Decider transaction with at
  most 3 attempts. \<open>transactions\<close> logs every transaction that settled: stream id and
  decision result.
\<close>

definition Decider_transact ::
  "('e, 's) Category \<Rightarrow> string \<Rightarrow> ('s \<Rightarrow> error + 'e list) \<Rightarrow> 'e world \<Rightarrow> error + 'e world" where
  "Decider_transact cat sid decide w =
     (case Decider_attempts 3 cat sid decide w of
        Inl e \<Rightarrow> Inl e
      | Inr (events, w') \<Rightarrow> Inr (w'\<lparr>transactions := transactions w' @ [(sid, events)]\<rparr>))"

text \<open>
  Modelled from the spec: \<^verbatim>\<open>decider.query(render)\<close>, the Loading step followed by the
  rendering of the state.
\<close>

definition Decider_query ::
  "('e, 's) Category \<Rightarrow> string \<Rightarrow> ('s \<Rightarrow> 'a) \<Rightarrow> 'e world \<Rightarrow> 'a" where
  "Decider_query cat sid render w = render (fst (Decider_load cat w sid))"

section \<open>The service\<close>

text \<open>
  A decider is given by the id of its stream. \<^verbatim>\<open>Service.create(accountId, context)\<close>
  builds the \<^verbatim>\<open>resolve\<close> function
  \<^verbatim>\<open>() => Decider.forStream(category, StreamId.create(accountId.toString()), null)\<close>,
  which takes no notice of its argument.
\<close>

definition Service_create :: "AccountId \<Rightarrow> (AccountId \<Rightarrow> string)" where
  "Service_create accountId = (\<lambda>_. accountId)"

definition Service_open ::
  "(AccountId \<Rightarrow> string) \<Rightarrow> AccountId \<Rightarrow> string \<Rightarrow> Event world \<Rightarrow> error + Event world" where
  "Service_open resolve accountId nm w =
     (let decider = resolve accountId
      in Decider_transact account_category decider (Decide_open accountId nm) w)"

definition Service_deposit ::
  "(AccountId \<Rightarrow> string) \<Rightarrow> AccountId \<Rightarrow> number \<Rightarrow> Event world \<Rightarrow> error + Event world" where
  "Service_deposit resolve accountId am w =
     (let decider = resolve accountId
      in Decider_transact account_category decider (Decide_deposit am) w)"

definition Service_withdraw ::
  "(AccountId \<Rightarrow> string) \<Rightarrow> AccountId \<Rightarrow> number \<Rightarrow> Event world \<Rightarrow> error + Event world" where
  "Service_withdraw resolve accountId am w =
     (let decider = resolve accountId
      in Decider_transact account_category decider (Decide_withdraw am) w)"

definition Service_readBalance ::
  "(AccountId \<Rightarrow> string) \<Rightarrow> AccountId \<Rightarrow> Event world \<Rightarrow> State" where
  "Service_readBalance resolve accountId w =
     (let decider = resolve accountId
      in Decider_query account_category decider (\<lambda>state. state) w)"

section \<open>The store adapter\<close>

text \<open>\<^verbatim>\<open>EquinoxService.decider(accountId)\<close> returns \<^verbatim>\<open>this.resolve(accountId)\<close>.\<close>

definition EquinoxService_decider :: "(AccountId \<Rightarrow> string) \<Rightarrow> AccountId \<Rightarrow> string" where
  "EquinoxService_decider resolve accountId = resolve accountId"

text \<open>
  The read options of the storage interface, which the adapter receives and never
  looks into.
\<close>

typedecl ReadStreamOptions

record ('s, 'e) AggregateStreamOptions =
  evolve :: "'s \<Rightarrow> 'e \<Rightarrow> 's"
  getInitialState :: "unit \<Rightarrow> 's"
  read :: "ReadStreamOptions option"

text \<open>The results; a \<^verbatim>\<open>bigint\<close> is an \<^typ>\<open>int\<close>.\<close>

record 's AggregateStreamResult =
  currentStreamVersion :: int
  result_state :: 's

record 'e ReadStreamResult =
  read_currentStreamVersion :: int
  result_events :: "'e list"

record AppendToStreamResult =
  nextExpectedStreamVersion :: int

text \<open>
  \<^verbatim>\<open>aggregateStream\<close> takes \<^verbatim>\<open>evolve\<close>, \<^verbatim>\<open>getInitialState\<close> and \<^verbatim>\<open>read\<close> out of the options,
  calls \<^verbatim>\<open>getInitialState()\<close>, sets the version to \<^verbatim>\<open>BigInt(0)\<close> and returns both. The
  storage \<open>w\<close> is there for it as for \<open>appendToStream\<close>; it reads nothing from it, and
  it calls neither \<^verbatim>\<open>evolve\<close> nor the Decider.
\<close>

definition aggregateStream ::
  "('e, 's) Category \<Rightarrow> string \<Rightarrow> ('t, 'f) AggregateStreamOptions \<Rightarrow> 'e world
   \<Rightarrow> 't AggregateStreamResult" where
  "aggregateStream mdynamoStoreCategory streamName options w =
     (let state = getInitialState options ();
          version = 0
      in \<lparr>currentStreamVersion = version, result_state = state\<rparr>)"

text \<open>\<^verbatim>\<open>readStream\<close> returns the empty array it has just made, and its length.\<close>

definition readStream ::
  "('e, 's) Category \<Rightarrow> string \<Rightarrow> ReadStreamOptions option \<Rightarrow> 'e world
   \<Rightarrow> 'f ReadStreamResult" where
  "readStream mdynamoStoreCategory streamName options w =
     (let events = []
      in \<lparr>read_currentStreamVersion = int (length events), result_events = events\<rparr>)"

text \<open>
  \<^verbatim>\<open>appendToStream\<close>. The decider is the one of the stream whose id is the stream name;
  \<^verbatim>\<open>AccountId.parse(streamName)\<close> belongs to the library and is a parameter here: when it
  throws, the call fails before any transaction. The one call
  \<^verbatim>\<open>decider.transact(() => events)\<close> is not awaited: the model runs it to its end before
  the return, and since nothing handles its failure, a failed transaction leaves the
  storage as it was and the result as it is. The result is
  \<^verbatim>\<open>{ nextExpectedStreamVersion: BigInt(events.length) }\<close>. The third argument
  \<^verbatim>\<open>options\<close> is never used and is left out.
\<close>

definition appendToStream ::
  "('e, 's) Category \<Rightarrow> (string \<Rightarrow> error + AccountId) \<Rightarrow> string \<Rightarrow> 'e list \<Rightarrow> 'e world
   \<Rightarrow> (error + AppendToStreamResult) \<times> 'e world" where
  "appendToStream mdynamoStoreCategory AccountId_parse streamName events w =
     (let resolve = (\<lambda>_. streamName)
      in case AccountId_parse streamName of
           Inl e \<Rightarrow> (Inl e, w)
         | Inr accountId \<Rightarrow>
             (let decider = EquinoxService_decider resolve accountId;
                  w' = (case Decider_transact mdynamoStoreCategory decider (\<lambda>_. Inr events) w of
                          Inl e \<Rightarrow> w
                        | Inr w'' \<Rightarrow> w'')
              in (Inr \<lparr>nextExpectedStreamVersion = int (length events)\<rparr>, w')))"

section \<open>Properties of the numbers\<close>

lemma overflow_threshold_large: "2 ^ 53 < overflow_threshold"
  by (simp add: overflow_threshold_def)

lemma round_half_even_of_int: "round_half_even (of_int k) = k"
  by (simp add: round_half_even_def)

lemma round_double_zero: "round_double 0 = Finite 0"
  using overflow_threshold_large
  by (simp add: round_double_def round_half_even_def)

text \<open>Below \<open>2 ^ 53\<close> the spacing of the doubles is 1 or a negative power of 2.\<close>

lemma ulp_search_small:
  "\<bar>x\<bar> < 2 ^ 53 \<Longrightarrow> \<exists>i\<le>j. ulp_search n (1 / 2 ^ j) x = 1 / 2 ^ i"
proof (induction n arbitrary: j)
  case 0
  then show ?case by auto
next
  case (Suc n)
  show ?case
  proof (cases "\<bar>x\<bar> < (1 / 2 ^ j) * 2 ^ 53")
    case True
    then show ?thesis by auto
  next
    case False
    with Suc.prems have "j \<noteq> 0" by (cases j) auto
    then obtain j' where j: "j = Suc j'" by (cases j) auto
    from Suc.IH [OF Suc.prems, of j'] obtain i where "i \<le> j'"
      and "ulp_search n (1 / 2 ^ j') x = 1 / 2 ^ i" by blast
    with False j show ?thesis by (intro exI [of _ i]) simp
  qed
qed

text \<open>An integer below \<open>2 ^ 53\<close> in absolute value is a double: rounding keeps it.\<close>

lemma round_double_int:
  assumes "x \<in> \<int>" and "\<bar>x\<bar> < 2 ^ 53"
  shows "round_double x = Finite x"
proof -
  from assms(1) obtain k where k: "x = of_int k" by (auto elim: Ints_cases)
  from ulp_search_small [OF assms(2), of 1074 2045]
  obtain i where u: "ulp x = 1 / 2 ^ i" by (auto simp: ulp_def)
  have "x / ulp x = x * 2 ^ i" by (simp add: u)
  also have "\<dots> = of_int (k * 2 ^ i)" by (simp add: k)
  finally have r: "round_half_even (x / ulp x) = k * 2 ^ i"
    by (simp only: round_half_even_of_int)
  have "of_int (round_half_even (x / ulp x)) * ulp x = of_int (k * 2 ^ i) * (1 / 2 ^ i)"
    by (subst r, subst u, rule refl)
  also have "\<dots> = x"
    by (simp add: k)
  finally have "of_int (round_half_even (x / ulp x)) * ulp x = x" .
  moreover have "\<not> overflow_threshold \<le> x" "\<not> x \<le> - overflow_threshold"
    using overflow_threshold_large assms(2) by linarith+
  ultimately show ?thesis by (simp add: round_double_def)
qed

lemma js_sub_self: "js_sub (Finite a) (Finite a) = Finite 0"
  by (simp add: round_double_zero)

section \<open>Properties of the fold\<close>

lemma Fold_fold_append:
  "Fold_fold state (xs @ ys) = Fold_fold (Fold_fold state xs) ys"
  by (simp add: Fold_fold_def)

lemma Fold_fold_single: "Fold_fold state [e] = Fold_evolve state e"
  by (simp add: Fold_fold_def)

text \<open>
  C3. Folding an event sequence from the initial state gives the same state as folding
  its first \<open>k\<close> events and then folding the remaining ones from that intermediate
  state, for every split point \<open>k\<close> (a \<open>k\<close> beyond the length takes the whole sequence
  and leaves none), and the same holds from any starting state for any two sequences
  put end to end.
\<close>

theorem fold_split:
  "Fold_fold Fold_initial es = Fold_fold (Fold_fold Fold_initial (take k es)) (drop k es)
   \<and> Fold_fold state (xs @ ys) = Fold_fold (Fold_fold state xs) ys"
proof
  have "Fold_fold Fold_initial (take k es @ drop k es)
        = Fold_fold (Fold_fold Fold_initial (take k es)) (drop k es)"
    by (rule Fold_fold_append)
  then show "Fold_fold Fold_initial es
             = Fold_fold (Fold_fold Fold_initial (take k es)) (drop k es)"
    by simp
next
  show "Fold_fold state (xs @ ys) = Fold_fold (Fold_fold state xs) ys"
    by (rule Fold_fold_append)
qed

section \<open>Properties of the decision functions\<close>

text \<open>
  C5, as stated, fails at an infinite balance. A deposit of \<^verbatim>\<open>Infinity\<close> into an open
  account is accepted and makes the balance \<^verbatim>\<open>Infinity\<close>. A withdrawal of \<^verbatim>\<open>Infinity\<close>
  is then a withdrawal of exactly the balance: it succeeds and emits the \<open>Withdrawn\<close>
  event, and applying that event leaves the balance \<^verbatim>\<open>NaN\<close>, which is not 0.
\<close>

theorem withdraw_all_infinite:
  "Decide_deposit PosInfinity \<lparr>status = Open, name = ''Alice'', amount = Finite 0\<rparr>
     = Inr [Deposited PosInfinity]
   \<and> Fold_evolve \<lparr>status = Open, name = ''Alice'', amount = Finite 0\<rparr> (Deposited PosInfinity)
     = \<lparr>status = Open, name = ''Alice'', amount = PosInfinity\<rparr>
   \<and> status \<lparr>status = Open, name = ''Alice'', amount = PosInfinity\<rparr> = Open
   \<and> js_equal PosInfinity (amount \<lparr>status = Open, name = ''Alice'', amount = PosInfinity\<rparr>)
   \<and> Decide_withdraw PosInfinity \<lparr>status = Open, name = ''Alice'', amount = PosInfinity\<rparr>
     = Inr [Withdrawn PosInfinity]
   \<and> amount (Fold_evolve \<lparr>status = Open, name = ''Alice'', amount = PosInfinity\<rparr>
               (Withdrawn PosInfinity))
     = NaN
   \<and> \<not> js_equal (amount (Fold_evolve \<lparr>status = Open, name = ''Alice'', amount = PosInfinity\<rparr>
                            (Withdrawn PosInfinity)))
                  (Finite 0)"
  by (simp add: Decide_deposit_def Decide_withdraw_def js_equal_def)

text \<open>
  C5, amended. Against an open account, a withdrawal of more than the balance
  (\<^verbatim>\<open>state.amount < amount\<close>, for all numbers, the infinities included) throws
  "Insufficient funds" and so decides no events; a withdrawal of a finite amount that
  is equal to the balance decides the single event \<open>Withdrawn am\<close>, and applying that
  event leaves a balance of zero.
\<close>

theorem withdraw_funds:
  assumes "status state = Open"
  shows "(js_less (amount state) am \<longrightarrow>
            Decide_withdraw am state = Inl (Error ''Insufficient funds''))
       \<and> (js_equal am (amount state) \<and> is_finite am \<longrightarrow>
            Decide_withdraw am state = Inr [Withdrawn am]
          \<and> amount (Fold_evolve state (Withdrawn am)) = Finite 0
          \<and> amount (Fold_fold state [Withdrawn am]) = Finite 0)"
proof (intro conjI impI)
  assume "js_less (amount state) am"
  with assms show "Decide_withdraw am state = Inl (Error ''Insufficient funds'')"
    by (simp add: Decide_withdraw_def)
next
  assume eq: "js_equal am (amount state) \<and> is_finite am"
  then obtain x where am: "am = Finite x" by (cases am) auto
  with eq have bal: "amount state = Finite x" by (simp add: js_equal_def)
  from assms am bal show "Decide_withdraw am state = Inr [Withdrawn am]"
    by (simp add: Decide_withdraw_def)
  from am bal show "amount (Fold_evolve state (Withdrawn am)) = Finite 0"
    by (simp add: round_double_zero)
  from am bal show "amount (Fold_fold state [Withdrawn am]) = Finite 0"
    by (simp add: Fold_fold_def round_double_zero)
qed

theorem withdraw_funds_witness:
  "status \<lparr>status = Open, name = ''Alice'', amount = Finite 100\<rparr> = Open
   \<and> js_less (amount \<lparr>status = Open, name = ''Alice'', amount = Finite 100\<rparr>) (Finite 150)
   \<and> Decide_withdraw (Finite 150) \<lparr>status = Open, name = ''Alice'', amount = Finite 100\<rparr>
       = Inl (Error ''Insufficient funds'')
   \<and> js_less (amount \<lparr>status = Open, name = ''Alice'', amount = Finite 100\<rparr>) PosInfinity
   \<and> Decide_withdraw PosInfinity \<lparr>status = Open, name = ''Alice'', amount = Finite 100\<rparr>
       = Inl (Error ''Insufficient funds'')
   \<and> js_equal (Finite 100) (amount \<lparr>status = Open, name = ''Alice'', amount = Finite 100\<rparr>)
   \<and> is_finite (Finite 100)
   \<and> Decide_withdraw (Finite 100) \<lparr>status = Open, name = ''Alice'', amount = Finite 100\<rparr>
       = Inr [Withdrawn (Finite 100)]
   \<and> amount (Fold_fold \<lparr>status = Open, name = ''Alice'', amount = Finite 100\<rparr>
               [Withdrawn (Finite 100)])
       = Finite 0"
proof -
  let ?s = "\<lparr>status = Open, name = ''Alice'', amount = Finite 100\<rparr>"
  have op: "status ?s = Open" by simp
  have less: "js_less (amount ?s) (Finite 150)" "js_less (amount ?s) PosInfinity"
    by simp_all
  have eq: "js_equal (Finite 100) (amount ?s) \<and> is_finite (Finite 100)"
    by (simp add: js_equal_def)
  have over: "Decide_withdraw (Finite 150) ?s = Inl (Error ''Insufficient funds'')"
    using withdraw_funds [OF op, of "Finite 150"] less by blast
  have inf: "Decide_withdraw PosInfinity ?s = Inl (Error ''Insufficient funds'')"
    using withdraw_funds [OF op, of PosInfinity] less by blast
  have exact: "Decide_withdraw (Finite 100) ?s = Inr [Withdrawn (Finite 100)]
               \<and> amount (Fold_fold ?s [Withdrawn (Finite 100)]) = Finite 0"
    using withdraw_funds [OF op, of "Finite 100"] eq by blast
  from op less eq over inf exact show ?thesis by blast
qed

text \<open>
  C6. Against an account whose status is \<open>NonExistent\<close> or \<open>Closed\<close>, a deposit and a
  withdrawal of any amount both throw "Account is not open" and so decide no events.
\<close>

theorem not_open_rejected:
  assumes "status state = NonExistent \<or> status state = Closed"
  shows "Decide_deposit am state = Inl (Error ''Account is not open'')
       \<and> Decide_withdraw am state = Inl (Error ''Account is not open'')"
  using assms by (auto simp: Decide_deposit_def Decide_withdraw_def)

theorem not_open_rejected_witness:
  "Decide_deposit (Finite 10) Fold_initial = Inl (Error ''Account is not open'')
   \<and> Decide_withdraw (Finite 10) Fold_initial = Inl (Error ''Account is not open'')
   \<and> Decide_deposit (Finite 10) \<lparr>status = Closed, name = ''Bob'', amount = Finite 25\<rparr>
       = Inl (Error ''Account is not open'')
   \<and> Decide_withdraw (Finite 10) \<lparr>status = Closed, name = ''Bob'', amount = Finite 25\<rparr>
       = Inl (Error ''Account is not open'')"
proof -
  have n: "status Fold_initial = NonExistent \<or> status Fold_initial = Closed"
    by (simp add: Fold_initial_def)
  have c: "status \<lparr>status = Closed, name = ''Bob'', amount = Finite 25\<rparr> = NonExistent
         \<or> status \<lparr>status = Closed, name = ''Bob'', amount = Finite 25\<rparr> = Closed"
    by simp
  from not_open_rejected [OF n, of "Finite 10"] not_open_rejected [OF c, of "Finite 10"]
  show ?thesis by blast
qed

text \<open>
  C9. Applying an \<open>Opened\<close> event changes only the status, which becomes \<open>Open\<close>, and
  the name, which becomes the payload's name. The balance is kept, and the status and
  the amount carried by the payload have no influence on the result. In particular the
  event decided by \<open>open\<close>, whose payload amount is 0, keeps the balance of an account
  that is opened again. This holds for every number as balance or payload amount,
  \<^verbatim>\<open>NaN\<close> and the infinities included.
\<close>

theorem evolve_opened_frame:
  "Fold_evolve state (Opened st nm am) = state\<lparr>status := Open, name := nm\<rparr>
   \<and> amount (Fold_evolve state (Opened st nm am)) = amount state
   \<and> Fold_evolve state (Opened st nm am) = Fold_evolve state (Opened st' nm am')
   \<and> Decide_open accountId nm state = Inr [Opened Open nm (Finite 0)]
   \<and> amount (Fold_fold state [Opened Open nm (Finite 0)]) = amount state"
  by (simp add: Decide_open_def Fold_fold_def)

section \<open>Properties of the codec\<close>

text \<open>
  C4, as stated, fails for an amount that is not finite. \<open>deposit\<close> accepts the amount
  \<^verbatim>\<open>NaN\<close> and decides \<open>Deposited NaN\<close>; \<^verbatim>\<open>JSON.stringify\<close> writes the amount as \<^verbatim>\<open>null\<close>, and
  \<open>decode\<close> returns an event whose amount is \<^verbatim>\<open>null\<close>, not the event that went in.
\<close>

theorem codec_roundtrip_nan:
  "Decide_deposit NaN \<lparr>status = Open, name = ''Alice'', amount = Finite 0\<rparr>
     = Inr [Deposited NaN]
   \<and> codec_decode (codec_encode (js_of_event (Deposited NaN)))
     = Inr (Some \<lparr>type = ''Deposited'', data = Some (VObject [(''amount'', VNull)])\<rparr>)
   \<and> codec_decode (codec_encode (js_of_event (Deposited NaN)))
     \<noteq> Inr (Some (js_of_event (Deposited NaN)))"
  by (simp add: Decide_deposit_def codec_decode_def codec_encode_def JSON_stringify_def
        data_or_braces_def)

text \<open>
  C4, amended. Every typed event (\<open>Opened\<close>, \<open>Deposited\<close>, \<open>Withdrawn\<close>, with any status
  and name) whose amount is a finite number comes back from \<open>decode\<close> as the object
  that went into \<open>encode\<close>.
\<close>

theorem codec_roundtrip:
  assumes "is_finite (event_amount e)"
  shows "codec_decode (codec_encode (js_of_event e)) = Inr (Some (js_of_event e))"
  using assms
  by (cases e)
     (simp_all add: codec_decode_def codec_encode_def JSON_stringify_def data_or_braces_def)

theorem codec_roundtrip_witness:
  "is_finite (event_amount (Opened Open ''Alice'' (Finite 0)))
   \<and> codec_encode (js_of_event (Opened Open ''Alice'' (Finite 0)))
     = \<lparr>type = ''Opened'',
        data = Str (Json_text (JObject [(''status'', JString ''Open''),
                                        (''name'', JString ''Alice''),
                                        (''amount'', JNumber (Finite 0))]))\<rparr>
   \<and> codec_decode
        \<lparr>type = ''Opened'',
         data = Str (Json_text (JObject [(''status'', JString ''Open''),
                                         (''name'', JString ''Alice''),
                                         (''amount'', JNumber (Finite 0))]))\<rparr>
     = Inr (Some (js_of_event (Opened Open ''Alice'' (Finite 0))))
   \<and> is_finite (event_amount (Withdrawn (Finite (5 / 2))))
   \<and> codec_decode (codec_encode (js_of_event (Withdrawn (Finite (5 / 2)))))
     = Inr (Some (js_of_event (Withdrawn (Finite (5 / 2)))))"
proof -
  have f1: "is_finite (event_amount (Opened Open ''Alice'' (Finite 0)))"
    and f2: "is_finite (event_amount (Withdrawn (Finite (5 / 2))))"
    by simp_all
  have enc: "codec_encode (js_of_event (Opened Open ''Alice'' (Finite 0)))
     = \<lparr>type = ''Opened'',
        data = Str (Json_text (JObject [(''status'', JString ''Open''),
                                        (''name'', JString ''Alice''),
                                        (''amount'', JNumber (Finite 0))]))\<rparr>"
    by (simp add: codec_encode_def JSON_stringify_def)
  from codec_roundtrip [OF f1] enc codec_roundtrip [OF f2] f1 f2
  show ?thesis by simp
qed

text \<open>
  C7, as stated, fails: for a tag outside \<open>Opened\<close>, \<open>Deposited\<close>, \<open>Withdrawn\<close> and a
  non-empty \<open>data\<close> string that is not JSON, \<open>decode\<close> throws the SyntaxError of
  \<^verbatim>\<open>JSON.parse\<close>, which runs before the tag is looked at.
\<close>

theorem decode_unknown_tag_malformed:
  "type \<lparr>type = ''Closed'', data = Str Malformed_text\<rparr>
     \<notin> {''Opened'', ''Deposited'', ''Withdrawn''}
   \<and> codec_decode \<lparr>type = ''Closed'', data = Str Malformed_text\<rparr> = Inl SyntaxError"
  by (simp add: codec_decode_def data_or_braces_def)

text \<open>
  C7, amended. For every wire event whose tag is none of \<open>Opened\<close>, \<open>Deposited\<close>,
  \<open>Withdrawn\<close>, \<open>decode\<close> returns \<^verbatim>\<open>undefined\<close> without throwing when the \<open>data\<close>
  property is not there, is \<^verbatim>\<open>undefined\<close>, is the empty string or is a JSON text
  (whatever value it denotes); it throws a SyntaxError when \<open>data\<close> is any other string.
\<close>

theorem decode_unknown_tag:
  assumes "type event \<notin> {''Opened'', ''Deposited'', ''Withdrawn''}"
  shows "codec_decode event
         = (if data event = Str Malformed_text then Inl SyntaxError else Inr None)"
  using assms
  by (cases "data event"; cases "data_or_braces (data event)")
     (auto simp add: codec_decode_def data_or_braces_def
           split: if_splits data_field.splits wire_string.splits)

theorem decode_unknown_tag_witness:
  "type \<lparr>type = ''Closed'', data = Str (Json_text (JObject [(''reason'', JString ''left'')]))\<rparr>
     \<notin> {''Opened'', ''Deposited'', ''Withdrawn''}
   \<and> codec_decode
        \<lparr>type = ''Closed'', data = Str (Json_text (JObject [(''reason'', JString ''left'')]))\<rparr>
       = Inr None
   \<and> codec_decode \<lparr>type = ''Closed'', data = Omitted\<rparr> = Inr None
   \<and> codec_decode \<lparr>type = ''Closed'', data = Str Empty_string\<rparr> = Inr None
   \<and> codec_decode \<lparr>type = ''Closed'', data = Str (Json_text JNull)\<rparr> = Inr None"
proof -
  have tag: "type \<lparr>type = ''Closed'', data = d\<rparr> \<notin> {''Opened'', ''Deposited'', ''Withdrawn''}"
    for d :: data_field
    by simp
  show ?thesis
    using tag
      decode_unknown_tag [OF tag, of "Str (Json_text (JObject [(''reason'', JString ''left'')]))"]
      decode_unknown_tag [OF tag, of Omitted]
      decode_unknown_tag [OF tag, of "Str Empty_string"]
      decode_unknown_tag [OF tag, of "Str (Json_text JNull)"]
    by simp
qed

text \<open>
  C8. For every event object that has no \<open>data\<close> property, the wire record made by
  \<open>encode\<close> has a \<open>data\<close> property, whose value is \<^verbatim>\<open>undefined\<close>: the property is not
  left out, and it is not the empty string. The tag is carried over.
\<close>

theorem encode_no_payload:
  assumes "data event = None"
  shows "data (codec_encode event) = Undefined
       \<and> data (codec_encode event) \<noteq> Omitted
       \<and> data (codec_encode event) \<noteq> Str Empty_string
       \<and> type (codec_encode event) = type event"
  using assms by (simp add: codec_encode_def)

theorem encode_no_payload_witness:
  "data \<lparr>type = ''Closed'', data = None :: jsval option\<rparr> = None
   \<and> codec_encode \<lparr>type = ''Closed'', data = None\<rparr> = \<lparr>type = ''Closed'', data = Undefined\<rparr>
   \<and> Undefined \<noteq> Omitted
   \<and> Undefined \<noteq> Str Empty_string"
proof -
  have none: "data \<lparr>type = ''Closed'', data = None :: jsval option\<rparr> = None"
    by simp
  from encode_no_payload [OF none]
  have "data (codec_encode \<lparr>type = ''Closed'', data = None\<rparr>) = Undefined"
    and "type (codec_encode \<lparr>type = ''Closed'', data = None\<rparr>) = ''Closed''"
    by simp_all
  then have "codec_encode \<lparr>type = ''Closed'', data = None\<rparr> = \<lparr>type = ''Closed'', data = Undefined\<rparr>"
    by (cases "codec_encode \<lparr>type = ''Closed'', data = None\<rparr>") simp
  with none show ?thesis by simp
qed

text \<open>
  C10. \<open>decode\<close> gives the same result for a wire event whose \<open>data\<close> property is not
  there, is \<^verbatim>\<open>undefined\<close> or is the empty string: the result for the JSON text \<^verbatim>\<open>{}\<close> in
  its place. For the three known tags that result is an event (not a failure) whose
  payload fields are all \<^verbatim>\<open>undefined\<close>; for any other tag it is \<^verbatim>\<open>undefined\<close>.
\<close>

theorem decode_absent_or_empty:
  "codec_decode (event\<lparr>data := Omitted\<rparr>)
     = codec_decode (event\<lparr>data := Str (Json_text (JObject []))\<rparr>)
   \<and> codec_decode (event\<lparr>data := Undefined\<rparr>)
     = codec_decode (event\<lparr>data := Str (Json_text (JObject []))\<rparr>)
   \<and> codec_decode (event\<lparr>data := Str Empty_string\<rparr>)
     = codec_decode (event\<lparr>data := Str (Json_text (JObject []))\<rparr>)
   \<and> codec_decode (event\<lparr>data := Str Empty_string\<rparr>)
     = (if type event = ''Opened'' then
          Inr (Some \<lparr>type = ''Opened'',
                     data = Some (VObject [(''status'', VUndefined),
                                           (''name'', VUndefined),
                                           (''amount'', VUndefined)])\<rparr>)
        else if type event = ''Deposited'' then
          Inr (Some \<lparr>type = ''Deposited'', data = Some (VObject [(''amount'', VUndefined)])\<rparr>)
        else if type event = ''Withdrawn'' then
          Inr (Some \<lparr>type = ''Withdrawn'', data = Some (VObject [(''amount'', VUndefined)])\<rparr>)
        else Inr None)"
  by (simp add: codec_decode_def data_or_braces_def)

section \<open>Properties of the Decider and the store adapter\<close>

lemma storage_append_current:
  "storage_append w sid (length (streams w sid)) events
   = Inr (w\<lparr>streams := (streams w)(sid := streams w sid @ events),
             appends := appends w @ [(sid, length (streams w sid), events)]\<rparr>)"
  by (simp add: storage_append_def)

lemma Decider_load_account:
  "Decider_load account_category w sid
   = (Fold_fold Fold_initial (streams w sid), length (streams w sid))"
  by (simp add: Decider_load_def storage_read_def account_category_def)

text \<open>A transaction whose decision is a given batch settles at the first attempt.\<close>

lemma Decider_attempts_const:
  "Decider_attempts (Suc n) cat sid (\<lambda>_. Inr events) w
   = Inr (events,
          if events = [] then w
          else w\<lparr>streams := (streams w)(sid := streams w sid @ events),
                 appends := appends w @ [(sid, length (streams w sid), events)]\<rparr>)"
  by (simp add: Decider_load_def storage_read_def storage_append_current)

lemma Decider_transact_const:
  "Decider_transact cat sid (\<lambda>_. Inr events) w
   = Inr ((if events = [] then w
           else w\<lparr>streams := (streams w)(sid := streams w sid @ events),
                  appends := appends w @ [(sid, length (streams w sid), events)]\<rparr>)
          \<lparr>transactions := transactions w @ [(sid, events)]\<rparr>)"
  by (simp add: Decider_transact_def numeral_3_eq_3 Decider_attempts_const
           del: Decider_attempts.simps)

lemma Fold_fold_take_Suc:
  "N < length es \<Longrightarrow>
   Fold_fold Fold_initial (take (Suc N) es)
   = Fold_evolve (Fold_fold Fold_initial (take N es)) (es ! N)"
  by (simp add: Fold_fold_def take_Suc_conv_app_nth)

text \<open>
  C2, at a stream that holds two events. The stream holds \<open>Opened\<close> for Alice and a
  deposit of 100: its version is 2, and the fold of its events from the initial state,
  which is what the Decider loads and \<open>readBalance\<close> reports, is the open account of
  Alice with a balance of 100. The adapter's \<open>aggregateStream\<close>, given the \<open>evolve\<close>
  and the initial state of the account, reports for the same stream version 0 and
  the initial state: it has read no event and folded none.
\<close>

theorem aggregateStream_ignores_stream:
  "aggregateStream account_category ''6f9619ff-8b86-4011-b42d-00c04fc964ff''
     \<lparr>evolve = Fold_evolve, getInitialState = (\<lambda>_. Fold_initial), read = None\<rparr>
     \<lparr>streams = (\<lambda>_. [])(''6f9619ff-8b86-4011-b42d-00c04fc964ff'' :=
                   [Opened Open ''Alice'' (Finite 0), Deposited (Finite 100)]),
      transactions = [], appends = []\<rparr>
     = \<lparr>currentStreamVersion = 0,
        result_state = \<lparr>status = NonExistent, name = '''', amount = Finite 0\<rparr>\<rparr>
   \<and> Decider_load account_category
       \<lparr>streams = (\<lambda>_. [])(''6f9619ff-8b86-4011-b42d-00c04fc964ff'' :=
                     [Opened Open ''Alice'' (Finite 0), Deposited (Finite 100)]),
        transactions = [], appends = []\<rparr>
       ''6f9619ff-8b86-4011-b42d-00c04fc964ff''
     = (\<lparr>status = Open, name = ''Alice'', amount = Finite 100\<rparr>, 2)
   \<and> Service_readBalance (Service_create ''6f9619ff-8b86-4011-b42d-00c04fc964ff'')
       ''6f9619ff-8b86-4011-b42d-00c04fc964ff''
       \<lparr>streams = (\<lambda>_. [])(''6f9619ff-8b86-4011-b42d-00c04fc964ff'' :=
                     [Opened Open ''Alice'' (Finite 0), Deposited (Finite 100)]),
        transactions = [], appends = []\<rparr>
     = \<lparr>status = Open, name = ''Alice'', amount = Finite 100\<rparr>
   \<and> Fold_fold Fold_initial [Opened Open ''Alice'' (Finite 0), Deposited (Finite 100)]
     = \<lparr>status = Open, name = ''Alice'', amount = Finite 100\<rparr>"
  by (simp add: aggregateStream_def Decider_load_account Service_readBalance_def
        Service_create_def Decider_query_def Fold_fold_def Fold_initial_def round_double_int)

text \<open>
  What \<open>appendToStream\<close> does for a stream name that \<^verbatim>\<open>AccountId.parse\<close> accepts: one
  transaction, whose decision is the whole batch; the batch is appended to the stream
  in one round-trip (none for an empty batch); the version returned is the length of
  the batch.
\<close>

lemma appendToStream_effect:
  assumes "AccountId_parse streamName = Inr accountId"
  shows "fst (appendToStream cat AccountId_parse streamName events w)
           = Inr \<lparr>nextExpectedStreamVersion = int (length events)\<rparr>"
    and "transactions (snd (appendToStream cat AccountId_parse streamName events w))
           = transactions w @ [(streamName, events)]"
    and "streams (snd (appendToStream cat AccountId_parse streamName events w)) streamName
           = streams w streamName @ events"
    and "appends (snd (appendToStream cat AccountId_parse streamName events w))
           = (if events = [] then appends w
              else appends w @ [(streamName, length (streams w streamName), events)])"
  using assms
  by (simp_all add: appendToStream_def EquinoxService_decider_def Decider_transact_const)

text \<open>
  The scenario of the source's last lines: a batch of 4 events appended to an empty
  stream is one transaction and one append round-trip, and the result is version 4.
\<close>

lemma appendToStream_batch_of_four:
  "appendToStream account_category Inr ''6f9619ff-8b86-4011-b42d-00c04fc964ff''
     [Opened Open ''John Do e'' (Finite 0), Deposited (Finite 100),
      Deposited (Finite 140), Deposited (Finite 90)]
     \<lparr>streams = (\<lambda>_. []), transactions = [], appends = []\<rparr>
   = (Inr \<lparr>nextExpectedStreamVersion = 4\<rparr>,
      \<lparr>streams = (\<lambda>_. [])(''6f9619ff-8b86-4011-b42d-00c04fc964ff'' :=
                   [Opened Open ''John Do e'' (Finite 0), Deposited (Finite 100),
      Deposited (Finite 140), Deposited (Finite 90)]),
       transactions = [(''6f9619ff-8b86-4011-b42d-00c04fc964ff'',
                        [Opened Open ''John Do e'' (Finite 0), Deposited (Finite 100),
      Deposited (Finite 140), Deposited (Finite 90)])],
       appends = [(''6f9619ff-8b86-4011-b42d-00c04fc964ff'', 0,
                   [Opened Open ''John Do e'' (Finite 0), Deposited (Finite 100),
      Deposited (Finite 140), Deposited (Finite 90)])]\<rparr>)"
  by (simp add: appendToStream_def EquinoxService_decider_def Decider_transact_const Let_def)

text \<open>
  C1, at a stream that is not empty. The stream holds one event; a batch of one event
  is appended through the adapter. The adapter performs one transaction, whose
  decision is the batch, and the stream then holds 2 events, so its version is 2; the
  result of the call says 1, the length of the batch.
\<close>

theorem appendToStream_version_nonempty:
  "fst (appendToStream account_category Inr ''6f9619ff-8b86-4011-b42d-00c04fc964ff''
          [Deposited (Finite 100)]
          \<lparr>streams = (\<lambda>_. [])(''6f9619ff-8b86-4011-b42d-00c04fc964ff'' :=
                        [Opened Open ''Alice'' (Finite 0)]),
           transactions = [], appends = []\<rparr>)
     = Inr \<lparr>nextExpectedStreamVersion = 1\<rparr>
   \<and> streams (snd (appendToStream account_category Inr ''6f9619ff-8b86-4011-b42d-00c04fc964ff''
          [Deposited (Finite 100)]
          \<lparr>streams = (\<lambda>_. [])(''6f9619ff-8b86-4011-b42d-00c04fc964ff'' :=
                        [Opened Open ''Alice'' (Finite 0)]),
           transactions = [], appends = []\<rparr>)) ''6f9619ff-8b86-4011-b42d-00c04fc964ff''
     = [Opened Open ''Alice'' (Finite 0), Deposited (Finite 100)]
   \<and> transactions (snd (appendToStream account_category Inr ''6f9619ff-8b86-4011-b42d-00c04fc964ff''
          [Deposited (Finite 100)]
          \<lparr>streams = (\<lambda>_. [])(''6f9619ff-8b86-4011-b42d-00c04fc964ff'' :=
                        [Opened Open ''Alice'' (Finite 0)]),
           transactions = [], appends = []\<rparr>))
     = [(''6f9619ff-8b86-4011-b42d-00c04fc964ff'', [Deposited (Finite 100)])]"
  by (simp add: appendToStream_effect)

end
